theory Spec2Isabelle
  imports Main "HOL-Library.Word" "HOL-Library.Monad_Syntax"
begin

section \<open>The guest side of the Region memory protocol (cosmwasm.ts)\<close>

text \<open>
  The module is AssemblyScript compiled to 32-bit WebAssembly: \<open>usize\<close> and \<open>u32\<close> are
  32-bit words, \<open>i32\<close> is a 32-bit word read in two's complement (\<open>sint\<close>), a byte is an
  8-bit word. A text is kept as the sequence of its UTF-8 bytes, so \<open>string\<close> (a list of
  8-bit characters) is both the text and its encoding.
\<close>

type_synonym u8 = "8 word"
type_synonym u32 = "32 word"
type_synonym i32 = "32 word"
type_synonym usize = "32 word"

subsection \<open>Data\<close>

text \<open>\<open>class Region { offset: u32; len: u32 }\<close>\<close>

record Region =
  offset :: u32
  len :: u32

text \<open>
  A \<open>Uint8Array\<close> is a view: the address of its first byte and the number of bytes it
  shows. It holds no bytes of its own; they are read from memory (\<open>bytes_of\<close> below).
  Addresses are addresses of blocks, so a view starts at the first byte of its buffer.
\<close>

record Uint8Array =
  dataStart :: usize
  byteLength :: u32

text \<open>What a block of guest memory holds: the bytes of an \<open>ArrayBuffer\<close>, or a Region.\<close>

datatype object = ArrayBuffer "u8 list" | RegionObject Region

text \<open>
  The guest's linear memory and its allocator.
  \<^item> \<open>memory\<close>: the contents of the blocks, by address. Releasing a block does not erase
    what it holds, as in linear memory.
  \<^item> \<open>live\<close>: the live-allocation set, with the reference count of each live block.
    The count is the one that the calls \<open>__retain\<close> and \<open>__release\<close> written in this
    module make; a block handed out by \<open>__alloc\<close> starts at count 0. The references
    that the compiler keeps on behalf of a view are not written in the module and are
    not counted.
  \<^item> \<open>brk\<close>: the address of the block the allocator hands out next.
  \<^item> \<open>uninit\<close>: the bytes found in memory that was never written (\<open>allocate\<close> does not
    zero the buffer it reserves).
\<close>

record heap =
  memory :: "usize \<Rightarrow> object option"
  live :: "usize \<Rightarrow> nat option"
  brk :: usize
  uninit :: "nat \<Rightarrow> u8"

text \<open>
  The host: the two imports of \<open>./env\<close>. The host is opaque to the guest; each import is
  any function of the guest's memory.
\<close>

record host =
  env_log :: "usize \<Rightarrow> heap \<Rightarrow> heap"
  env_canonicalize_address :: "usize \<Rightarrow> usize \<Rightarrow> heap \<Rightarrow> i32 \<times> heap"

text \<open>A thrown object: \<open>new Error(message)\<close> has the class name \<open>Error\<close> and a message.\<close>

record thrown =
  error_class :: string
  error_message :: string

text \<open>
  How a call ends: it returns a value, it throws, it traps (\<open>unreachable()\<close>), or it
  breaks the contract of the runtime (a pointer that is no Region, a release of a block
  that is not live, a view longer than its buffer), where the module goes on in no
  defined way.
\<close>

datatype 'a outcome =
    Returns 'a heap
  | Throws thrown heap
  | Traps heap
  | Violates

subsection \<open>The runtime: \<open>__alloc\<close>, \<open>__retain\<close>, \<open>__release\<close>, object literals\<close>

text \<open>
  The allocator hands out the block at \<open>brk\<close>, with reference count 0. Memory never
  runs out here (the real allocator traps when it does). That the block at \<open>brk\<close> is
  free is the allocator's invariant; a result that needs it says so.
\<close>

definition new_block :: "object \<Rightarrow> heap \<Rightarrow> usize \<times> heap" where
  "new_block obj h =
     (brk h, h\<lparr>memory := (memory h)(brk h \<mapsto> obj),
               live := (live h)(brk h \<mapsto> 0),
               brk := brk h + 1\<rparr>)"

text \<open>\<open>__alloc(size, idof<ArrayBuffer>())\<close>: \<open>size\<close> bytes, not zeroed.\<close>

definition alloc :: "usize \<Rightarrow> heap \<Rightarrow> usize \<times> heap" where
  "alloc size' h = new_block (ArrayBuffer (map (uninit h) [0..<unat size'])) h"

text \<open>The object literal \<open>{ offset: ..., len: ... }\<close> of type Region.\<close>

definition new_Region :: "Region \<Rightarrow> heap \<Rightarrow> usize \<times> heap" where
  "new_Region r h = new_block (RegionObject r) h"

text \<open>\<open>__retain(ptr)\<close>: one more reference to a live block.\<close>

definition retain :: "usize \<Rightarrow> heap \<Rightarrow> heap option" where
  "retain p h =
     (case live h p of
        None \<Rightarrow> None
      | Some n \<Rightarrow> Some (h\<lparr>live := (live h)(p \<mapsto> Suc n)\<rparr>))"

text \<open>
  \<open>__release(ptr)\<close>: one reference fewer; the block is freed when its last reference
  goes. Releasing a block that is not live, or has no reference, breaks the contract.
\<close>

definition release :: "usize \<Rightarrow> heap \<Rightarrow> heap option" where
  "release p h =
     (case live h p of
        None \<Rightarrow> None
      | Some n \<Rightarrow>
          if n = 0 then None
          else if n = 1 then Some (h\<lparr>live := (live h)(p := None)\<rparr>)
          else Some (h\<lparr>live := (live h)(p \<mapsto> n - 1)\<rparr>))"

text \<open>\<open>changetype<Region>(regionPtr)\<close>: the Region stored at the address.\<close>

definition load_Region :: "usize \<Rightarrow> heap \<Rightarrow> Region option" where
  "load_Region p h =
     (case memory h p of
        Some (RegionObject r) \<Rightarrow> Some r
      | _ \<Rightarrow> None)"

text \<open>
  \<open>Uint8Array.wrap(data, 0, length)\<close>: a view of the first \<open>length\<close> bytes of the buffer at
  \<open>data\<close>; no view when the buffer is shorter than that (the library throws a RangeError).
\<close>

definition Uint8Array_wrap :: "usize \<Rightarrow> u32 \<Rightarrow> heap \<Rightarrow> Uint8Array option" where
  "Uint8Array_wrap data length' h =
     (case memory h data of
        Some (ArrayBuffer bs) \<Rightarrow>
          if unat length' \<le> length bs
          then Some \<lparr>dataStart = data, byteLength = length'\<rparr>
          else None
      | _ \<Rightarrow> None)"

text \<open>The bytes a view shows.\<close>

definition bytes_of :: "heap \<Rightarrow> Uint8Array \<Rightarrow> u8 list option" where
  "bytes_of h v =
     (case memory h (dataStart v) of
        Some (ArrayBuffer bs) \<Rightarrow>
          if unat (byteLength v) \<le> length bs
          then Some (take (unat (byteLength v)) bs)
          else None
      | _ \<Rightarrow> None)"

text \<open>
  Modelled from the spec: \<open>getDataPtr\<close> and \<open>Encoding.toUtf8\<close> (\<open>./utils\<close>, not among the
  sources). A Region made from a view describes the view's buffer, so \<open>getDataPtr\<close> is
  the address of the view's data. \<open>Encoding.toUtf8\<close> "UTF-8-encodes the text": it puts
  the bytes of the text in a new buffer and returns the view of it.
\<close>

definition getDataPtr :: "Uint8Array \<Rightarrow> usize" where
  "getDataPtr arr = dataStart arr"

definition toUtf8 :: "string \<Rightarrow> heap \<Rightarrow> Uint8Array \<times> heap" where
  "toUtf8 text h =
     (let (p, h1) = new_block (ArrayBuffer (map of_char text)) h
      in (\<lparr>dataStart = p, byteLength = of_nat (length text)\<rparr>, h1))"

text \<open>\<open>toString()\<close> of a \<open>u32\<close> and of an \<open>i32\<close>: decimal digits, a minus sign first.\<close>

definition digit :: "nat \<Rightarrow> char" where
  "digit d = ''0123456789'' ! d"

fun decimal :: "nat \<Rightarrow> string" where
  "decimal n = (if n < 10 then [digit n] else decimal (n div 10) @ [digit (n mod 10)])"

declare decimal.simps [simp del]

definition u32_toString :: "u32 \<Rightarrow> string" where
  "u32_toString x = decimal (unat x)"

definition i32_toString :: "i32 \<Rightarrow> string" where
  "i32_toString x =
     (if sint x < 0 then CHR ''-'' # decimal (nat (- sint x)) else decimal (nat (sint x)))"

text \<open>
  \<open>a || b\<close> on \<open>string | null\<close>. The module is AssemblyScript: the compiler keeps the type
  \<open>string | null\<close> for \<open>a || b\<close> (hence the \<open>!\<close> assertions on lines 131 and 134) and
  tests the reference \<open>a\<close> against \<open>null\<close>. The result is \<open>b\<close> when \<open>a\<close> is \<open>null\<close>; a string
  that is not \<open>null\<close> is kept, the empty one too.
\<close>

definition or_string :: "string option \<Rightarrow> string \<Rightarrow> string" where
  "or_string a b = (case a of None \<Rightarrow> b | Some s \<Rightarrow> s)"

subsection \<open>The module\<close>

definition allocate :: "usize \<Rightarrow> heap \<Rightarrow> (usize \<times> heap) option" where
  "allocate size' h =
     (let (dataPtr, h1) = alloc size' h in
      do {
        h2 \<leftarrow> retain dataPtr h1;
        let (regionPtr, h3) = new_Region \<lparr>offset = dataPtr, len = size'\<rparr> h2;
        h4 \<leftarrow> retain regionPtr h3;
        Some (regionPtr, h4)
      })"

definition deallocate :: "usize \<Rightarrow> heap \<Rightarrow> heap option" where
  "deallocate regionPtr h =
     do {
       region \<leftarrow> load_Region regionPtr h;
       h1 \<leftarrow> release regionPtr h;
       release (offset region) h1
     }"

definition readRegion :: "usize \<Rightarrow> heap \<Rightarrow> Uint8Array option" where
  "readRegion regionPtr h =
     do {
       region \<leftarrow> load_Region regionPtr h;
       Uint8Array_wrap (offset region) (len region) h
     }"

definition releaseOwnership :: "Uint8Array \<Rightarrow> heap \<Rightarrow> (usize \<times> heap) option" where
  "releaseOwnership data h =
     (let dataPtr = getDataPtr data;
          (regionPtr, h1) = new_Region \<lparr>offset = dataPtr, len = byteLength data\<rparr> h
      in do {
        h2 \<leftarrow> retain dataPtr h1;
        h3 \<leftarrow> retain regionPtr h2;
        Some (regionPtr, h3)
      })"

definition keepOwnership :: "Uint8Array \<Rightarrow> heap \<Rightarrow> usize \<times> heap" where
  "keepOwnership data h =
     (let dataPtr = getDataPtr data
      in new_Region \<lparr>offset = dataPtr, len = byteLength data\<rparr> h)"

definition takeOwnership :: "usize \<Rightarrow> heap \<Rightarrow> (Uint8Array \<times> heap) option" where
  "takeOwnership regionPtr h =
     do {
       out \<leftarrow> readRegion regionPtr h;
       h1 \<leftarrow> deallocate regionPtr h;
       Some (out, h1)
     }"

definition log :: "host \<Rightarrow> string \<Rightarrow> heap \<Rightarrow> heap" where
  "log env text h =
     (let (data, h1) = toUtf8 text h;
          (regionPtr, h2) = keepOwnership data h1
      in env_log env regionPtr h2)"

definition canonicalize :: "host \<Rightarrow> string \<Rightarrow> heap \<Rightarrow> Uint8Array outcome" where
  "canonicalize env human h =
     (let (humanEncoded, h1) = toUtf8 human h in
      case allocate 50 h1 of
        None \<Rightarrow> Violates
      | Some (resultPtr, h2) \<Rightarrow>
          let (inputPtr, h3) = keepOwnership humanEncoded h2;
              (returnCode, h4) = env_canonicalize_address env inputPtr resultPtr h3
          in if sint returnCode < 0
             then Throws \<lparr>error_class = ''Error'',
                          error_message = ''Call to env.canonicalize_address failed with return code ''
                                          @ i32_toString returnCode\<rparr> h4
             else (case readRegion resultPtr h4 of
                     None \<Rightarrow> Violates
                   | Some canonical \<Rightarrow>
                       (case deallocate resultPtr h4 of
                          None \<Rightarrow> Violates
                        | Some h5 \<Rightarrow> Returns canonical h5)))"

text \<open>The text \<open>msg\<close> that \<open>logAndCrash\<close> builds.\<close>

definition logAndCrash_msg :: "string option \<Rightarrow> string option \<Rightarrow> u32 \<Rightarrow> u32 \<Rightarrow> string" where
  "logAndCrash_msg message fileName lineNumber columnNumber =
     ''Aborted with message '' @ [CHR 0x27]
     @ or_string message ''unset''
     @ '' (in '' @ [CHR 0x27]
     @ or_string fileName ''unset''
     @ [CHR 0x27] @ '', line ''
     @ u32_toString lineNumber
     @ '', column ''
     @ u32_toString columnNumber
     @ '')''"

definition logAndCrash ::
  "host \<Rightarrow> string option \<Rightarrow> string option \<Rightarrow> u32 \<Rightarrow> u32 \<Rightarrow> heap \<Rightarrow> unit outcome" where
  "logAndCrash env message fileName lineNumber columnNumber h =
     (let msg = logAndCrash_msg message fileName lineNumber columnNumber
      in Traps (log env msg h))"

subsection \<open>Response encoding\<close>

text \<open>
  Modelled from the spec: \<open>Base64.encode\<close> (\<open>./encoding/base64\<close>, not among the sources),
  "the standard base64 encoding (padded, standard alphabet)" of the bytes: three bytes
  give four characters, a last group of one or two bytes is padded with \<open>=\<close>.
\<close>

definition base64_alphabet :: string where
  "base64_alphabet = ''ABCDEFGHIJKLMNOPQRSTUVWXYZabcdefghijklmnopqrstuvwxyz0123456789+/''"

definition base64_char :: "nat \<Rightarrow> char" where
  "base64_char i = base64_alphabet ! i"

fun Base64_encode :: "u8 list \<Rightarrow> string" where
  "Base64_encode (a # b # c # rest) =
     [base64_char (unat a div 4),
      base64_char (unat a mod 4 * 16 + unat b div 16),
      base64_char (unat b mod 16 * 4 + unat c div 64),
      base64_char (unat c mod 64)] @ Base64_encode rest"
| "Base64_encode [a, b] =
     [base64_char (unat a div 4),
      base64_char (unat a mod 4 * 16 + unat b div 16),
      base64_char (unat b mod 16 * 4),
      CHR ''='']"
| "Base64_encode [a] =
     [base64_char (unat a div 4),
      base64_char (unat a mod 4 * 16),
      CHR ''='', CHR ''='']"
| "Base64_encode [] = []"

text \<open>
  Modelled from the spec: \<open>JSONEncoder\<close> (the package \<open>assemblyscript-json\<close>, not among
  the sources), which writes a JSON document "with no whitespace beyond JSON's minimal
  requirements". The encoder keeps the pieces written so far and, for each open object,
  whether its next key is the first one. A key that is not the first follows a comma. A
  string is written between double quotes, with the double quote (\<open>0x22\<close>), the backslash
  (\<open>0x5C\<close>) and the control characters escaped.
\<close>

record JSONEncoder =
  isFirstKey :: "bool list"
  result :: "string list"

definition new_JSONEncoder :: JSONEncoder where
  "new_JSONEncoder = \<lparr>isFirstKey = [True], result = []\<rparr>"

definition write_text :: "string \<Rightarrow> JSONEncoder \<Rightarrow> JSONEncoder" where
  "write_text s enc = enc\<lparr>result := result enc @ [s]\<rparr>"

definition hex_digit :: "nat \<Rightarrow> char" where
  "hex_digit d = ''0123456789abcdef'' ! d"

definition escape_char :: "char \<Rightarrow> string" where
  "escape_char c =
     (if c = CHR 0x22 then [CHR 0x5C, CHR 0x22]
      else if c = CHR 0x5C then [CHR 0x5C, CHR 0x5C]
      else if (of_char c :: nat) < 32
        then [CHR 0x5C] @ ''u00'' @ [hex_digit (of_char c div 16), hex_digit (of_char c mod 16)]
      else [c])"

definition writeString :: "string \<Rightarrow> JSONEncoder \<Rightarrow> JSONEncoder" where
  "writeString str enc = write_text ([CHR 0x22] @ concat (map escape_char str) @ [CHR 0x22]) enc"

definition writeKey :: "string option \<Rightarrow> JSONEncoder \<Rightarrow> JSONEncoder" where
  "writeKey name enc =
     (let enc1 = (case isFirstKey enc of
                    [] \<Rightarrow> write_text '','' enc
                  | first # outer \<Rightarrow>
                      if first then enc\<lparr>isFirstKey := False # outer\<rparr> else write_text '','' enc)
      in case name of
           None \<Rightarrow> enc1
         | Some key \<Rightarrow> write_text '':'' (writeString key enc1))"

definition pushObject :: "string option \<Rightarrow> JSONEncoder \<Rightarrow> JSONEncoder" where
  "pushObject name enc =
     (let enc1 = write_text ''{'' (writeKey name enc)
      in enc1\<lparr>isFirstKey := True # isFirstKey enc1\<rparr>)"

definition popObject :: "JSONEncoder \<Rightarrow> JSONEncoder" where
  "popObject enc =
     (let enc1 = write_text ''}'' enc
      in enc1\<lparr>isFirstKey := tl (isFirstKey enc1)\<rparr>)"

definition setString :: "string \<Rightarrow> string \<Rightarrow> JSONEncoder \<Rightarrow> JSONEncoder" where
  "setString name v enc = writeString v (writeKey (Some name) enc)"

definition serialize :: "JSONEncoder \<Rightarrow> u8 list" where
  "serialize enc = map of_char (concat (result enc))"

text \<open>
  \<open>wrapOk\<close> makes no call on the memory protocol; its argument and its result are given
  by the bytes they hold.
\<close>

definition wrapOk :: "u8 list \<Rightarrow> u8 list" where
  "wrapOk data =
     (let encoder = new_JSONEncoder;
          encoder = pushObject None encoder;
          encoder = setString ''ok'' (Base64_encode data) encoder;
          encoder = popObject encoder
      in serialize encoder)"

subsection \<open>The host's side, and example heaps and hosts\<close>

text \<open>
  Two ways in which a host can write bytes into a Region (the host is no part of the
  sources). \<open>write_bytes\<close> puts the bytes in the buffer at the Region's offset, from its
  start, and leaves the Region as it is. \<open>write_region\<close> does the same and sets the
  Region's \<open>len\<close> to the number of bytes written.
\<close>

definition write_bytes :: "u8 list \<Rightarrow> usize \<Rightarrow> heap \<Rightarrow> heap" where
  "write_bytes bs regionPtr h =
     (case load_Region regionPtr h of
        None \<Rightarrow> h
      | Some region \<Rightarrow>
          (case memory h (offset region) of
             Some (ArrayBuffer old) \<Rightarrow>
               h\<lparr>memory := (memory h)
                    (offset region \<mapsto> ArrayBuffer (bs @ drop (length bs) old))\<rparr>
           | _ \<Rightarrow> h))"

definition write_region :: "u8 list \<Rightarrow> usize \<Rightarrow> heap \<Rightarrow> heap" where
  "write_region bs regionPtr h =
     (case load_Region regionPtr h of
        None \<Rightarrow> h
      | Some region \<Rightarrow>
          (case memory h (offset region) of
             Some (ArrayBuffer old) \<Rightarrow>
               h\<lparr>memory := (memory h)
                    (offset region \<mapsto> ArrayBuffer (bs @ drop (length bs) old),
                     regionPtr \<mapsto> RegionObject (region\<lparr>len := of_nat (length bs)\<rparr>))\<rparr>
           | _ \<Rightarrow> h))"

text \<open>A heap with nothing allocated.\<close>

definition heap0 :: heap where
  "heap0 = \<lparr>memory = (\<lambda>_. None), live = (\<lambda>_. None), brk = 0, uninit = (\<lambda>_. 0xAA)\<rparr>"

text \<open>A heap that holds the two bytes of "hi" in a buffer with one reference, and the view of them.\<close>

definition heap_hi :: heap where
  "heap_hi = \<lparr>memory = (\<lambda>_. None)(0 \<mapsto> ArrayBuffer [0x68, 0x69]),
              live = (\<lambda>_. None)(0 \<mapsto> 1), brk = 1, uninit = (\<lambda>_. 0xAA)\<rparr>"

definition view_hi :: Uint8Array where
  "view_hi = \<lparr>dataStart = 0, byteLength = 2\<rparr>"

text \<open>A host that fails every canonicalization with the code \<open>-1\<close>.\<close>

definition host_failing :: host where
  "host_failing = \<lparr>env_log = (\<lambda>_ h. h), env_canonicalize_address = (\<lambda>_ _ h. (- 1, h))\<rparr>"

text \<open>
  Two hosts that write the three bytes 1, 2, 3 into the output Region and return 0: the
  first sets the Region's \<open>len\<close> to 3, the second leaves it.
\<close>

definition host_writing :: host where
  "host_writing =
     \<lparr>env_log = (\<lambda>_ h. h),
      env_canonicalize_address = (\<lambda>_ regionPtr h. (0, write_region [1, 2, 3] regionPtr h))\<rparr>"

definition host_writing_bytes :: host where
  "host_writing_bytes =
     \<lparr>env_log = (\<lambda>_ h. h),
      env_canonicalize_address = (\<lambda>_ regionPtr h. (0, write_bytes [1, 2, 3] regionPtr h))\<rparr>"

section \<open>Properties\<close>

subsection \<open>Helper facts\<close>

lemma allocate_eq:
  "allocate n h =
     Some (brk h + 1,
           h\<lparr>memory := (memory h)(brk h \<mapsto> ArrayBuffer (map (uninit h) [0..<unat n]),
                                  brk h + 1 \<mapsto> RegionObject \<lparr>offset = brk h, len = n\<rparr>),
             live := (live h)(brk h \<mapsto> 1, brk h + 1 \<mapsto> 1),
             brk := brk h + 2\<rparr>)"
  by (simp add: allocate_def alloc_def new_Region_def new_block_def retain_def)

lemma bytes_of_memory:
  "memory h' (dataStart v) = memory h (dataStart v) \<Longrightarrow> bytes_of h' v = bytes_of h v"
  by (simp add: bytes_of_def)

lemma bytes_of_SomeD:
  "bytes_of h v = Some bs \<Longrightarrow>
     \<exists>cs. memory h (dataStart v) = Some (ArrayBuffer cs) \<and> unat (byteLength v) \<le> length cs
          \<and> bs = take (unat (byteLength v)) cs"
  by (auto simp: bytes_of_def split: option.splits object.splits if_splits)

lemma unat_small: "n \<le> 50 \<Longrightarrow> unat (of_nat n :: u32) = n"
  by (simp add: unat_of_nat)

text \<open>
  The call that \<open>canonicalize\<close> makes to the host: the text goes to the block at \<open>brk\<close>,
  the output buffer and its Region to the next two blocks, the input Region to the fourth.
\<close>

lemma canonicalize_call_eq:
  assumes "toUtf8 human h = (humanEncoded, h1)"
      and "allocate 50 h1 = Some (resultPtr, h2)"
      and "keepOwnership humanEncoded h2 = (inputPtr, h3)"
  shows "resultPtr = brk h + 2" and "inputPtr = brk h + 3"
    and "h1 = h\<lparr>memory := (memory h)(brk h \<mapsto> ArrayBuffer (map of_char human)),
                  live := (live h)(brk h \<mapsto> 0), brk := brk h + 1\<rparr>"
    and "memory h2 = (memory h)(brk h \<mapsto> ArrayBuffer (map of_char human),
                  brk h + 1 \<mapsto> ArrayBuffer (map (uninit h) [0..<50]),
                  brk h + 2 \<mapsto> RegionObject \<lparr>offset = brk h + 1, len = 50\<rparr>)"
    and "memory h3 = (memory h2)(brk h + 3 \<mapsto>
                    RegionObject \<lparr>offset = brk h, len = of_nat (length human)\<rparr>)"
    and "live h3 = (live h)(brk h \<mapsto> 0, brk h + 1 \<mapsto> 1, brk h + 2 \<mapsto> 1, brk h + 3 \<mapsto> 0)"
  using assms
  by (auto simp: toUtf8_def new_block_def allocate_eq keepOwnership_def new_Region_def
      getDataPtr_def)

text \<open>The steps of \<open>canonicalize\<close> before the call to the host never fail.\<close>

lemma canonicalize_call_total:
  "\<exists>humanEncoded h1 resultPtr h2 inputPtr h3.
     toUtf8 human h = (humanEncoded, h1) \<and> allocate 50 h1 = Some (resultPtr, h2)
     \<and> keepOwnership humanEncoded h2 = (inputPtr, h3)"
  by (simp add: allocate_eq)

lemma i32_toString_minus_one: "i32_toString (- 1) = ''-1''"
  by (simp add: i32_toString_def decimal.simps digit_def)

text \<open>No character of a base64 text needs an escape in a JSON string.\<close>

lemma escape_alphabet: "\<forall>c \<in> set base64_alphabet. escape_char c = [c]"
  by (simp add: base64_alphabet_def escape_char_def)

lemma escape_base64_char: "i < 64 \<Longrightarrow> escape_char (base64_char i) = [base64_char i]"
proof -
  assume "i < 64"
  then have "base64_char i \<in> set base64_alphabet"
    unfolding base64_char_def by (intro nth_mem) (simp add: base64_alphabet_def)
  then show ?thesis using escape_alphabet by blast
qed

lemma escape_pad: "escape_char CHR ''='' = ''=''"
  by (simp add: escape_char_def)

lemma unat_byte: "unat (a :: u8) < 256"
  using unsigned_less [of a, where 'a = nat] by simp

lemma sextets:
  "unat (a :: u8) div 4 < 64"
  "unat (a :: u8) mod 4 * 16 + unat (b :: u8) div 16 < 64"
  "unat (a :: u8) mod 16 * 4 + unat (b :: u8) div 64 < 64"
  "unat (a :: u8) mod 64 < 64"
  "unat (a :: u8) mod 4 * 16 < 64"
  "unat (a :: u8) mod 16 * 4 < 64"
  using unat_byte [of a] unat_byte [of b] by arith+

lemma escape_Base64_encode: "concat (map escape_char (Base64_encode bs)) = Base64_encode bs"
  by (induction bs rule: Base64_encode.induct)
     (simp_all add: escape_base64_char escape_pad sextets)

text \<open>The test vectors of RFC 4648 for the standard alphabet with padding.\<close>

lemma Base64_encode_rfc4648:
  "Base64_encode [] = []"
  "Base64_encode (map of_char ''f'') = ''Zg==''"
  "Base64_encode (map of_char ''fo'') = ''Zm8=''"
  "Base64_encode (map of_char ''foo'') = ''Zm9v''"
  "Base64_encode (map of_char ''foob'') = ''Zm9vYg==''"
  "Base64_encode (map of_char ''fooba'') = ''Zm9vYmE=''"
  "Base64_encode (map of_char ''foobar'') = ''Zm9vYmFy''"
  by (simp_all add: base64_char_def base64_alphabet_def)

lemma wrapOk_eq:
  "wrapOk b = map of_char (''{'' @ [CHR 0x22] @ ''ok'' @ [CHR 0x22] @ '':'' @ [CHR 0x22]
                @ Base64_encode b @ [CHR 0x22] @ ''}'')"
  by (simp add: wrapOk_def new_JSONEncoder_def pushObject_def writeKey_def write_text_def
      setString_def writeString_def popObject_def serialize_def escape_Base64_encode
      escape_char_def Let_def)

subsection \<open>The allocator primitives\<close>

text \<open>
  C7. For every size \<open>n\<close>, on a heap whose next two blocks are free, \<open>allocate n\<close> succeeds
  and adds exactly two blocks to the live-allocation set, each with one reference: a
  buffer of \<open>n\<close> bytes and a Region whose offset is the buffer's address and whose len is
  \<open>n\<close>. One \<open>deallocate\<close> of the result succeeds and leaves the table of live blocks and
  their counts as it was before the \<open>allocate\<close>.
\<close>

theorem allocate_deallocate:
  assumes "live h (brk h) = None" and "live h (brk h + 1) = None"
  shows "\<exists>dataPtr regionPtr h1 bs.
           allocate n h = Some (regionPtr, h1)
         \<and> dataPtr \<noteq> regionPtr
         \<and> live h dataPtr = None \<and> live h regionPtr = None
         \<and> live h1 = (live h)(dataPtr \<mapsto> 1, regionPtr \<mapsto> 1)
         \<and> memory h1 dataPtr = Some (ArrayBuffer bs) \<and> length bs = unat n
         \<and> memory h1 regionPtr = Some (RegionObject \<lparr>offset = dataPtr, len = n\<rparr>)
         \<and> (\<exists>h2. deallocate regionPtr h1 = Some h2 \<and> live h2 = live h)"
proof -
  let ?d = "brk h" and ?r = "brk h + 1"
  let ?bs = "map (uninit h) [0..<unat n]"
  let ?h1 = "h\<lparr>memory := (memory h)(?d \<mapsto> ArrayBuffer ?bs,
                                  ?r \<mapsto> RegionObject \<lparr>offset = ?d, len = n\<rparr>),
               live := (live h)(?d \<mapsto> 1, ?r \<mapsto> 1),
               brk := brk h + 2\<rparr>"
  have a: "allocate n h = Some (?r, ?h1)" by (rule allocate_eq)
  have l: "(live h)(?d := None, ?r := None) = live h"
    using assms by (auto simp: fun_eq_iff)
  have d: "deallocate ?r ?h1 = Some (?h1\<lparr>live := live h\<rparr>)"
    using l by (simp add: deallocate_def load_Region_def release_def fun_upd_twist)
  show ?thesis
    apply (rule exI [of _ ?d], rule exI [of _ ?r], rule exI [of _ ?h1], rule exI [of _ ?bs])
    using a d assms by simp
qed

theorem allocate_deallocate_witness:
  "live heap0 (brk heap0) = None \<and> live heap0 (brk heap0 + 1) = None
   \<and> (\<exists>dataPtr regionPtr h1 bs.
           allocate 4 heap0 = Some (regionPtr, h1)
         \<and> dataPtr \<noteq> regionPtr
         \<and> live heap0 dataPtr = None \<and> live heap0 regionPtr = None
         \<and> live h1 = (live heap0)(dataPtr \<mapsto> 1, regionPtr \<mapsto> 1)
         \<and> memory h1 dataPtr = Some (ArrayBuffer bs) \<and> length bs = unat (4::u32)
         \<and> memory h1 regionPtr = Some (RegionObject \<lparr>offset = dataPtr, len = 4\<rparr>)
         \<and> (\<exists>h2. deallocate regionPtr h1 = Some h2 \<and> live h2 = live heap0))"
proof -
  have 1: "live heap0 (brk heap0) = None" by (simp add: heap0_def)
  have 2: "live heap0 (brk heap0 + 1) = None" by (simp add: heap0_def)
  show ?thesis using 1 2 allocate_deallocate [OF 1 2, of 4] by blast
qed

text \<open>A second \<open>deallocate\<close> of the same Region is refused: its blocks are no longer live.\<close>

lemma deallocate_twice:
  assumes "live h (brk h) = None" and "live h (brk h + 1) = None"
    and "allocate n h = Some (p, h1)" and "deallocate p h1 = Some h2"
  shows "deallocate p h2 = None"
  using assms
  by (auto simp: allocate_eq deallocate_def load_Region_def release_def fun_upd_twist
      split: if_splits)

subsection \<open>Region marshaling\<close>

text \<open>
  C5. For every view \<open>b\<close> of bytes \<open>bs\<close>, on a heap whose next block is unused,
  \<open>readRegion\<close> of \<open>keepOwnership b\<close> is a view of the same bytes \<open>bs\<close>. No reference count
  changes: the only change to the table of live blocks is the new Region, which has no
  reference; the count of the buffer is what it was.
\<close>

theorem readRegion_keepOwnership:
  assumes "bytes_of h b = Some bs" and "memory h (brk h) = None"
  shows "\<exists>regionPtr h1 out.
           keepOwnership b h = (regionPtr, h1)
         \<and> readRegion regionPtr h1 = Some out
         \<and> bytes_of h1 out = Some bs
         \<and> live h1 = (live h)(regionPtr \<mapsto> 0)
         \<and> live h1 (getDataPtr b) = live h (getDataPtr b)"
proof -
  from assms(1) obtain cs where cs: "memory h (dataStart b) = Some (ArrayBuffer cs)"
    "unat (byteLength b) \<le> length cs" "bs = take (unat (byteLength b)) cs"
    by (blast dest: bytes_of_SomeD)
  from cs(1) assms(2) have ne: "dataStart b \<noteq> brk h" by auto
  let ?r = "brk h"
  let ?h1 = "h\<lparr>memory := (memory h)(?r \<mapsto> RegionObject \<lparr>offset = dataStart b, len = byteLength b\<rparr>),
               live := (live h)(?r \<mapsto> 0), brk := brk h + 1\<rparr>"
  have k: "keepOwnership b h = (?r, ?h1)"
    by (simp add: keepOwnership_def getDataPtr_def new_Region_def new_block_def)
  have r: "readRegion ?r ?h1 = Some b"
    using cs ne by (simp add: readRegion_def load_Region_def Uint8Array_wrap_def)
  have b: "bytes_of ?h1 b = Some bs"
    using assms(1) ne by (simp add: bytes_of_def)
  show ?thesis
    apply (rule exI [of _ ?r], rule exI [of _ ?h1], rule exI [of _ b])
    using k r b ne by (simp add: getDataPtr_def)
qed

theorem readRegion_keepOwnership_witness:
  "bytes_of heap_hi view_hi = Some [0x68, 0x69] \<and> memory heap_hi (brk heap_hi) = None
   \<and> (\<exists>regionPtr h1 out.
           keepOwnership view_hi heap_hi = (regionPtr, h1)
         \<and> readRegion regionPtr h1 = Some out
         \<and> bytes_of h1 out = Some [0x68, 0x69]
         \<and> live h1 = (live heap_hi)(regionPtr \<mapsto> 0)
         \<and> live h1 (getDataPtr view_hi) = live heap_hi (getDataPtr view_hi))"
proof -
  have 1: "bytes_of heap_hi view_hi = Some [0x68, 0x69]"
    by (simp add: bytes_of_def heap_hi_def view_hi_def)
  have 2: "memory heap_hi (brk heap_hi) = None" by (simp add: heap_hi_def)
  show ?thesis using 1 2 readRegion_keepOwnership [OF 1 2] by blast
qed

text \<open>
  C4. For every view \<open>b\<close> of bytes \<open>bs\<close> whose buffer is a live block, on a heap whose
  next block is unused, \<open>releaseOwnership b\<close> succeeds, \<open>takeOwnership\<close> of its result
  succeeds, and the view it returns shows the same bytes \<open>bs\<close>. The Region is no longer
  live afterwards.
\<close>

theorem takeOwnership_releaseOwnership:
  assumes "bytes_of h b = Some bs" and "live h (getDataPtr b) = Some n"
    and "memory h (brk h) = None"
  shows "\<exists>regionPtr h1 out h2.
           releaseOwnership b h = Some (regionPtr, h1)
         \<and> takeOwnership regionPtr h1 = Some (out, h2)
         \<and> bytes_of h2 out = Some bs
         \<and> live h2 regionPtr = None"
proof -
  from assms(1) obtain cs where cs: "memory h (dataStart b) = Some (ArrayBuffer cs)"
    "unat (byteLength b) \<le> length cs" "bs = take (unat (byteLength b)) cs"
    by (blast dest: bytes_of_SomeD)
  from cs(1) assms(3) have ne: "dataStart b \<noteq> brk h" by auto
  let ?r = "brk h"
  let ?m = "(memory h)(?r \<mapsto> RegionObject \<lparr>offset = dataStart b, len = byteLength b\<rparr>)"
  let ?h1 = "h\<lparr>memory := ?m,
               live := (live h)(?r \<mapsto> 1, dataStart b \<mapsto> Suc n), brk := brk h + 1\<rparr>"
  have rel: "releaseOwnership b h = Some (?r, ?h1)"
    using assms(2) ne
    by (simp add: releaseOwnership_def getDataPtr_def new_Region_def new_block_def retain_def
        Let_def fun_upd_twist)
  have rd: "readRegion ?r ?h1 = Some b"
    using cs ne by (simp add: readRegion_def load_Region_def Uint8Array_wrap_def)
  obtain h2 where de: "deallocate ?r ?h1 = Some h2" and mem: "memory h2 = ?m"
    and gone: "live h2 ?r = None"
    using ne by (cases "n = 0") (simp_all add: deallocate_def load_Region_def release_def)
  have tk: "takeOwnership ?r ?h1 = Some (b, h2)"
    using rd de by (simp add: takeOwnership_def)
  have "bytes_of h2 b = bytes_of h b"
    using ne mem by (intro bytes_of_memory) simp
  with assms(1) rel tk gone show ?thesis by auto
qed

theorem takeOwnership_releaseOwnership_witness:
  "bytes_of heap_hi view_hi = Some [0x68, 0x69] \<and> live heap_hi (getDataPtr view_hi) = Some 1
   \<and> memory heap_hi (brk heap_hi) = None
   \<and> (\<exists>regionPtr h1 out h2.
           releaseOwnership view_hi heap_hi = Some (regionPtr, h1)
         \<and> takeOwnership regionPtr h1 = Some (out, h2)
         \<and> bytes_of h2 out = Some [0x68, 0x69]
         \<and> live h2 regionPtr = None)"
proof -
  have 1: "bytes_of heap_hi view_hi = Some [0x68, 0x69]"
    by (simp add: bytes_of_def heap_hi_def view_hi_def)
  have 2: "live heap_hi (getDataPtr view_hi) = Some 1"
    by (simp add: getDataPtr_def heap_hi_def view_hi_def)
  have 3: "memory heap_hi (brk heap_hi) = None" by (simp add: heap_hi_def)
  show ?thesis using 1 2 3 takeOwnership_releaseOwnership [OF 1 2 3] by blast
qed

subsection \<open>\<open>logAndCrash\<close>\<close>

text \<open>
  C1. \<open>logAndCrash("boom", "file.ts", 10, 3)\<close> passes to \<open>log\<close> the text
  \<open>Aborted with message 'boom (in 'file.ts', line 10, column 3)\<close> and traps. The quote
  that opens before the message is never closed, so this is not the text
  \<open>Aborted with message 'boom' (in 'file.ts', line 10, column 3)\<close>. With \<open>message = null\<close>
  the text has \<open>unset\<close> in the place of the message.
\<close>

theorem logAndCrash_boom:
  "logAndCrash env (Some ''boom'') (Some ''file.ts'') 10 3 h
     = Traps (log env ''Aborted with message 'boom (in 'file.ts', line 10, column 3)'' h)
   \<and> logAndCrash_msg (Some ''boom'') (Some ''file.ts'') 10 3
     \<noteq> ''Aborted with message 'boom' (in 'file.ts', line 10, column 3)''
   \<and> logAndCrash env None (Some ''file.ts'') 10 3 h
     = Traps (log env ''Aborted with message 'unset (in 'file.ts', line 10, column 3)'' h)"
  by (simp add: logAndCrash_def logAndCrash_msg_def or_string_def u32_toString_def
      decimal.simps digit_def)

text \<open>
  C9. Whatever its arguments, the heap and the host, \<open>logAndCrash\<close> logs the text it
  built and ends in a trap: it never returns and never throws.
\<close>

theorem logAndCrash_never_returns:
  "logAndCrash env message fileName lineNumber columnNumber h
     = Traps (log env (logAndCrash_msg message fileName lineNumber columnNumber) h)
   \<and> (\<forall>u h'. logAndCrash env message fileName lineNumber columnNumber h \<noteq> Returns u h')
   \<and> (\<forall>e h'. logAndCrash env message fileName lineNumber columnNumber h \<noteq> Throws e h')"
  by (simp add: logAndCrash_def)

text \<open>
  C10 (as the code has it). A \<open>null\<close> message is replaced by \<open>unset\<close>, and so is a \<open>null\<close>
  file name. A message or a file name that is not \<open>null\<close> stands in the text as it is,
  the empty string too: it is not treated as an absent field.
\<close>

theorem logAndCrash_null_is_unset:
  "logAndCrash_msg None fileName lineNumber columnNumber
     = ''Aborted with message '' @ [CHR 0x27] @ ''unset'' @ '' (in '' @ [CHR 0x27]
       @ or_string fileName ''unset'' @ [CHR 0x27] @ '', line '' @ u32_toString lineNumber
       @ '', column '' @ u32_toString columnNumber @ '')''
   \<and> logAndCrash_msg message None lineNumber columnNumber
     = ''Aborted with message '' @ [CHR 0x27] @ or_string message ''unset'' @ '' (in ''
       @ [CHR 0x27] @ ''unset'' @ [CHR 0x27] @ '', line '' @ u32_toString lineNumber
       @ '', column '' @ u32_toString columnNumber @ '')''
   \<and> logAndCrash_msg (Some m) (Some f) lineNumber columnNumber
     = ''Aborted with message '' @ [CHR 0x27] @ m @ '' (in '' @ [CHR 0x27]
       @ f @ [CHR 0x27] @ '', line '' @ u32_toString lineNumber
       @ '', column '' @ u32_toString columnNumber @ '')''
   \<and> logAndCrash env None None lineNumber columnNumber h
     = Traps (log env (''Aborted with message '' @ [CHR 0x27] @ ''unset (in ''
              @ [CHR 0x27] @ ''unset'' @ [CHR 0x27] @ '', line '' @ u32_toString lineNumber
              @ '', column '' @ u32_toString columnNumber @ '')'') h)"
  by (simp add: logAndCrash_def logAndCrash_msg_def or_string_def)

text \<open>
  C10 (as stated) fails: with the empty string as message the text has nothing after the
  opening quote, not \<open>unset\<close>, and it is not the text built for a \<open>null\<close> message; with the
  empty string as file name the text has nothing between the quotes of the file name.
\<close>

theorem logAndCrash_empty_counterexample:
  "logAndCrash_msg (Some []) (Some ''file.ts'') 10 3
     = ''Aborted with message ' (in 'file.ts', line 10, column 3)''
   \<and> logAndCrash_msg (Some []) (Some ''file.ts'') 10 3
     \<noteq> ''Aborted with message 'unset (in 'file.ts', line 10, column 3)''
   \<and> logAndCrash_msg (Some []) (Some ''file.ts'') 10 3
     \<noteq> logAndCrash_msg None (Some ''file.ts'') 10 3
   \<and> logAndCrash_msg (Some ''boom'') (Some []) 10 3
     = ''Aborted with message 'boom (in '' @ [CHR 0x27, CHR 0x27] @ '', line 10, column 3)''
   \<and> logAndCrash_msg (Some ''boom'') (Some []) 10 3
     \<noteq> logAndCrash_msg (Some ''boom'') None 10 3"
  by (simp add: logAndCrash_msg_def or_string_def u32_toString_def decimal.simps digit_def)

subsection \<open>\<open>canonicalize\<close>\<close>

text \<open>
  In the theorems on \<open>canonicalize\<close> the first premises name the steps of the function
  up to the call to the host: the encoded text, the output Region that \<open>allocate(50)\<close>
  returns, the input Region, and the code and the heap that the host returns. By
  \<open>canonicalize_call_total\<close> these steps exist for every text and heap; the host is any
  host.
\<close>

text \<open>
  C2 (as the code has it). For every host whose \<open>canonicalize_address\<close> returns a negative
  code, \<open>canonicalize\<close> throws an object of the class \<open>Error\<close> whose message is
  \<open>Call to env.canonicalize_address failed with return code\<close>, a space and the decimal
  text of the code; it returns no bytes.
\<close>

theorem canonicalize_failure:
  assumes "toUtf8 human h = (humanEncoded, h1)"
      and "allocate 50 h1 = Some (resultPtr, h2)"
      and "keepOwnership humanEncoded h2 = (inputPtr, h3)"
      and "env_canonicalize_address env inputPtr resultPtr h3 = (returnCode, h4)"
      and "sint returnCode < 0"
  shows "canonicalize env human h
           = Throws \<lparr>error_class = ''Error'',
                     error_message = ''Call to env.canonicalize_address failed with return code ''
                                     @ i32_toString returnCode\<rparr> h4
         \<and> (\<forall>canonical h'. canonicalize env human h \<noteq> Returns canonical h')"
  using assms by (simp add: canonicalize_def)

theorem canonicalize_failure_witness:
  "\<exists>humanEncoded h1 resultPtr h2 inputPtr h3 h4.
     toUtf8 ''cosmos1'' heap0 = (humanEncoded, h1)
   \<and> allocate 50 h1 = Some (resultPtr, h2)
   \<and> keepOwnership humanEncoded h2 = (inputPtr, h3)
   \<and> env_canonicalize_address host_failing inputPtr resultPtr h3 = (- 1, h4)
   \<and> sint (- 1 :: i32) < 0
   \<and> canonicalize host_failing ''cosmos1'' heap0
       = Throws \<lparr>error_class = ''Error'',
                 error_message = ''Call to env.canonicalize_address failed with return code -1''\<rparr> h4"
proof -
  obtain humanEncoded h1 resultPtr h2 inputPtr h3 where
    t: "toUtf8 ''cosmos1'' heap0 = (humanEncoded, h1)"
       "allocate 50 h1 = Some (resultPtr, h2)"
       "keepOwnership humanEncoded h2 = (inputPtr, h3)"
    using canonicalize_call_total by blast
  have c: "env_canonicalize_address host_failing inputPtr resultPtr h3 = (- 1, h3)"
    by (simp add: host_failing_def)
  have n: "sint (- 1 :: i32) < 0" by simp
  from canonicalize_failure [OF t c n]
  have "canonicalize host_failing ''cosmos1'' heap0
          = Throws \<lparr>error_class = ''Error'',
                    error_message = ''Call to env.canonicalize_address failed with return code -1''\<rparr> h3"
    by (simp add: i32_toString_minus_one)
  with t c n show ?thesis by blast
qed

text \<open>
  C2 (as the spec has it) fails: with a host that returns \<open>-1\<close> the thrown object is of
  the class \<open>Error\<close> and holds the code only inside its message text; it is no
  \<open>AddressCanonicalizationError\<close>.
\<close>

theorem canonicalize_error_class_counterexample:
  "(\<exists>h'. canonicalize host_failing ''cosmos1'' heap0
            = Throws \<lparr>error_class = ''Error'',
                      error_message = ''Call to env.canonicalize_address failed with return code -1''\<rparr> h')
   \<and> \<not> (\<exists>msg h'. canonicalize host_failing ''cosmos1'' heap0
            = Throws \<lparr>error_class = ''AddressCanonicalizationError'', error_message = msg\<rparr> h')"
  by (simp add: canonicalize_def toUtf8_def new_block_def allocate_eq keepOwnership_def
      new_Region_def getDataPtr_def host_failing_def i32_toString_minus_one)

text \<open>
  C3. For every host whose \<open>canonicalize_address\<close> returns a negative code and leaves the
  table of live blocks as it found it, \<open>canonicalize\<close> throws and the output Region of 50
  bytes that it allocated is not deallocated: after the failure the Region and its buffer
  are both live, each with its one reference. The Region's block was free before
  \<open>allocate\<close> took it, so the table of live blocks is not the one from before the
  allocation.
\<close>

theorem canonicalize_failure_keeps_region:
  assumes "toUtf8 human h = (humanEncoded, h1)"
      and "allocate 50 h1 = Some (resultPtr, h2)"
      and "keepOwnership humanEncoded h2 = (inputPtr, h3)"
      and "env_canonicalize_address env inputPtr resultPtr h3 = (returnCode, h4)"
      and "sint returnCode < 0"
      and "live h4 = live h3"
      and "live h1 resultPtr = None"
  shows "\<exists>e region.
           canonicalize env human h = Throws e h4
         \<and> load_Region resultPtr h2 = Some region \<and> len region = 50
         \<and> offset region \<noteq> resultPtr
         \<and> live h4 resultPtr = Some 1
         \<and> live h4 (offset region) = Some 1
         \<and> live h4 \<noteq> live h1"
proof -
  note c = canonicalize_call_eq [OF assms(1-3)]
  have t: "\<exists>e. canonicalize env human h = Throws e h4"
    using assms(1-5) by (simp add: canonicalize_def)
  have r: "load_Region resultPtr h2 = Some \<lparr>offset = brk h + 1, len = 50\<rparr>"
    by (simp add: load_Region_def c)
  have l: "live h4 resultPtr = Some 1" "live h4 (brk h + 1) = Some 1"
    by (simp_all add: assms(6) c)
  from l(1) assms(7) have "live h4 \<noteq> live h1" by auto
  with t r l show ?thesis by (auto simp: c(1))
qed

theorem canonicalize_failure_keeps_region_witness:
  "\<exists>humanEncoded h1 resultPtr h2 inputPtr h3 h4.
     toUtf8 ''cosmos1'' heap0 = (humanEncoded, h1)
   \<and> allocate 50 h1 = Some (resultPtr, h2)
   \<and> keepOwnership humanEncoded h2 = (inputPtr, h3)
   \<and> env_canonicalize_address host_failing inputPtr resultPtr h3 = (- 1, h4)
   \<and> sint (- 1 :: i32) < 0
   \<and> live h4 = live h3
   \<and> live h1 resultPtr = None
   \<and> (\<exists>e region.
           canonicalize host_failing ''cosmos1'' heap0 = Throws e h4
         \<and> load_Region resultPtr h2 = Some region \<and> len region = 50
         \<and> offset region \<noteq> resultPtr
         \<and> live h4 resultPtr = Some 1
         \<and> live h4 (offset region) = Some 1
         \<and> live h4 \<noteq> live h1)"
proof -
  obtain humanEncoded h1 resultPtr h2 inputPtr h3 where
    t: "toUtf8 ''cosmos1'' heap0 = (humanEncoded, h1)"
       "allocate 50 h1 = Some (resultPtr, h2)"
       "keepOwnership humanEncoded h2 = (inputPtr, h3)"
    using canonicalize_call_total by blast
  note c = canonicalize_call_eq [OF t]
  have k: "env_canonicalize_address host_failing inputPtr resultPtr h3 = (- 1, h3)"
    by (simp add: host_failing_def)
  have n: "sint (- 1 :: i32) < 0" by simp
  have f: "live h1 resultPtr = None"
    by (simp add: c(1) c(3) heap0_def)
  from canonicalize_failure_keeps_region [OF t k n refl f] t k n f
  show ?thesis by blast
qed

text \<open>
  C6 (as the code has it). \<open>canonicalize\<close> allocates its output Region with
  \<open>allocate(50)\<close>: a Region of len 50 on a buffer of 50 bytes. For every host that writes
  the bytes \<open>bs\<close>, at most 50 of them, into that Region, sets the Region's \<open>len\<close> to their
  number, and returns a code that is not negative, \<open>canonicalize\<close> returns a view of exactly
  the bytes \<open>bs\<close>, and on return the output Region and its buffer have been released:
  neither is in the table of live blocks.
\<close>

theorem canonicalize_success:
  assumes "toUtf8 human h = (humanEncoded, h1)"
      and "allocate 50 h1 = Some (resultPtr, h2)"
      and "keepOwnership humanEncoded h2 = (inputPtr, h3)"
      and "env_canonicalize_address env inputPtr resultPtr h3
             = (returnCode, write_region bs resultPtr h3)"
      and "0 \<le> sint returnCode"
      and "length bs \<le> 50"
  shows "\<exists>region old canonical h5.
           load_Region resultPtr h2 = Some region \<and> len region = 50
         \<and> memory h2 (offset region) = Some (ArrayBuffer old) \<and> length old = 50
         \<and> canonicalize env human h = Returns canonical h5
         \<and> bytes_of h5 canonical = Some bs
         \<and> live h5 resultPtr = None
         \<and> live h5 (offset region) = None"
proof -
  note c = canonicalize_call_eq [OF assms(1-3)]
  let ?d = "brk h + 1" and ?old = "map (uninit h) [0..<50]"
  let ?v = "\<lparr>dataStart = ?d, byteLength = of_nat (length bs)\<rparr>"
  let ?h4 = "write_region bs resultPtr h3"
  have r: "load_Region resultPtr h2 = Some \<lparr>offset = ?d, len = 50\<rparr>"
    by (simp add: load_Region_def c)
  have o: "memory h2 ?d = Some (ArrayBuffer ?old)" by (simp add: c)
  have m4: "memory ?h4 = (memory h3)(?d \<mapsto> ArrayBuffer (bs @ drop (length bs) ?old),
               resultPtr \<mapsto> RegionObject \<lparr>offset = ?d, len = of_nat (length bs)\<rparr>)"
    and l4: "live ?h4 = live h3"
    by (simp_all add: write_region_def load_Region_def c)
  have u: "unat (of_nat (length bs) :: u32) = length bs"
    using assms(6) by (rule unat_small)
  have ne: "?d \<noteq> resultPtr" by (simp add: c(1))
  have rd: "readRegion resultPtr ?h4 = Some ?v"
    using u assms(6) ne by (simp add: readRegion_def load_Region_def Uint8Array_wrap_def m4)
  have l3: "live h3 resultPtr = Some 1" "live h3 ?d = Some 1"
    by (simp_all add: c)
  obtain h5 where de: "deallocate resultPtr ?h4 = Some h5" and m5: "memory h5 = memory ?h4"
    and l5: "live h5 = (live h3)(resultPtr := None, ?d := None)"
    using ne l3 by (simp add: deallocate_def load_Region_def release_def m4 l4)
  have ret: "canonicalize env human h = Returns ?v h5"
    using assms(1-5) rd de by (simp add: canonicalize_def)
  have b: "bytes_of h5 ?v = Some bs"
    using u assms(6) ne by (simp add: bytes_of_def m5 m4)
  have l: "live h5 resultPtr = None" "live h5 ?d = None"
    by (simp_all add: l5)
  from r o ret b l show ?thesis by auto
qed

theorem canonicalize_success_witness:
  "\<exists>humanEncoded h1 resultPtr h2 inputPtr h3.
     toUtf8 ''cosmos1'' heap0 = (humanEncoded, h1)
   \<and> allocate 50 h1 = Some (resultPtr, h2)
   \<and> keepOwnership humanEncoded h2 = (inputPtr, h3)
   \<and> env_canonicalize_address host_writing inputPtr resultPtr h3
       = (0, write_region [1, 2, 3] resultPtr h3)
   \<and> 0 \<le> sint (0 :: i32)
   \<and> length [1, 2, 3 :: u8] \<le> 50
   \<and> (\<exists>region old canonical h5.
           load_Region resultPtr h2 = Some region \<and> len region = 50
         \<and> memory h2 (offset region) = Some (ArrayBuffer old) \<and> length old = 50
         \<and> canonicalize host_writing ''cosmos1'' heap0 = Returns canonical h5
         \<and> bytes_of h5 canonical = Some [1, 2, 3]
         \<and> live h5 resultPtr = None
         \<and> live h5 (offset region) = None)"
proof -
  obtain humanEncoded h1 resultPtr h2 inputPtr h3 where
    t: "toUtf8 ''cosmos1'' heap0 = (humanEncoded, h1)"
       "allocate 50 h1 = Some (resultPtr, h2)"
       "keepOwnership humanEncoded h2 = (inputPtr, h3)"
    using canonicalize_call_total by blast
  have k: "env_canonicalize_address host_writing inputPtr resultPtr h3
             = (0, write_region [1, 2, 3] resultPtr h3)"
    by (simp add: host_writing_def)
  have n: "0 \<le> sint (0 :: i32)" by simp
  have s: "length [1, 2, 3 :: u8] \<le> 50" by simp
  from canonicalize_success [OF t k n s] t k n s
  show ?thesis by blast
qed

text \<open>
  \<open>readRegion\<close> shows as many bytes as the Region's \<open>len\<close> says, and \<open>allocate(50)\<close> set
  it to 50. When the host writes its bytes and leaves \<open>len\<close> as it is, \<open>canonicalize\<close>
  returns all 50 bytes of the buffer: the bytes written, then what the buffer held.
\<close>

lemma canonicalize_len_untouched:
  assumes "toUtf8 human h = (humanEncoded, h1)"
      and "allocate 50 h1 = Some (resultPtr, h2)"
      and "keepOwnership humanEncoded h2 = (inputPtr, h3)"
      and "env_canonicalize_address env inputPtr resultPtr h3
             = (returnCode, write_bytes bs resultPtr h3)"
      and "0 \<le> sint returnCode"
      and "length bs \<le> 50"
  shows "\<exists>canonical h5.
           canonicalize env human h = Returns canonical h5
         \<and> byteLength canonical = 50
         \<and> bytes_of h5 canonical = Some (bs @ drop (length bs) (map (uninit h) [0..<50]))"
proof -
  note c = canonicalize_call_eq [OF assms(1-3)]
  let ?d = "brk h + 1" and ?old = "map (uninit h) [0..<50]"
  let ?v = "\<lparr>dataStart = ?d, byteLength = 50\<rparr>"
  let ?h4 = "write_bytes bs resultPtr h3"
  have ne: "?d \<noteq> resultPtr" by (simp add: c(1))
  have m4: "memory ?h4 = (memory h3)(?d \<mapsto> ArrayBuffer (bs @ drop (length bs) ?old))"
    and l4: "live ?h4 = live h3"
    by (simp_all add: write_bytes_def load_Region_def c)
  have r3: "memory h3 resultPtr = Some (RegionObject \<lparr>offset = ?d, len = 50\<rparr>)"
    by (simp add: c)
  have rd: "readRegion resultPtr ?h4 = Some ?v"
    using assms(6) ne r3 by (simp add: readRegion_def load_Region_def Uint8Array_wrap_def m4)
  have l3: "live h3 resultPtr = Some 1" "live h3 ?d = Some 1"
    by (simp_all add: c)
  obtain h5 where de: "deallocate resultPtr ?h4 = Some h5" and m5: "memory h5 = memory ?h4"
    using ne l3 r3 by (simp add: deallocate_def load_Region_def release_def m4 l4)
  have ret: "canonicalize env human h = Returns ?v h5"
    using assms(1-5) rd de by (simp add: canonicalize_def)
  have b: "bytes_of h5 ?v = Some (bs @ drop (length bs) ?old)"
    using assms(6) by (simp add: bytes_of_def m5 m4)
  from ret b show ?thesis by auto
qed

text \<open>
  C6 (as the spec has it) fails: a host that writes the three bytes 1, 2, 3 into the
  output Region's buffer and returns 0 gets back a view of 50 bytes, the three written
  and the 47 that the buffer held, not a view of the three bytes.
\<close>

theorem canonicalize_len_counterexample:
  "(\<exists>canonical h5.
       canonicalize host_writing_bytes ''cosmos1'' heap0 = Returns canonical h5
     \<and> byteLength canonical = 50
     \<and> bytes_of h5 canonical = Some ([1, 2, 3] @ replicate 47 0xAA))
   \<and> \<not> (\<exists>canonical h5.
       canonicalize host_writing_bytes ''cosmos1'' heap0 = Returns canonical h5
     \<and> bytes_of h5 canonical = Some [1, 2, 3])"
proof -
  obtain humanEncoded h1 resultPtr h2 inputPtr h3 where
    t: "toUtf8 ''cosmos1'' heap0 = (humanEncoded, h1)"
       "allocate 50 h1 = Some (resultPtr, h2)"
       "keepOwnership humanEncoded h2 = (inputPtr, h3)"
    using canonicalize_call_total by blast
  have k: "env_canonicalize_address host_writing_bytes inputPtr resultPtr h3
             = (0, write_bytes [1, 2, 3] resultPtr h3)"
    by (simp add: host_writing_bytes_def)
  have u: "drop (length [1, 2, 3 :: u8]) (map (uninit heap0) [0..<50]) = replicate 47 0xAA"
    by (simp add: heap0_def map_replicate_const drop_map)
  have n: "0 \<le> sint (0 :: i32)" by simp
  have s: "length [1, 2, 3 :: u8] \<le> 50" by simp
  from canonicalize_len_untouched [OF t k n s]
  obtain canonical h5 where
    r: "canonicalize host_writing_bytes ''cosmos1'' heap0 = Returns canonical h5"
       "byteLength canonical = 50"
    and b: "bytes_of h5 canonical
              = Some ([1, 2, 3] @ drop (length [1, 2, 3 :: u8]) (map (uninit heap0) [0..<50]))"
    by blast
  from b have "bytes_of h5 canonical = Some ([1, 2, 3] @ replicate 47 0xAA)"
    by (simp only: u)
  note r = r this
  have "[1, 2, 3] @ replicate 47 (0xAA :: u8) \<noteq> [1, 2, 3]" by simp
  with r show ?thesis by auto
qed

subsection \<open>\<open>wrapOk\<close>\<close>

text \<open>
  C8. For every byte sequence \<open>b\<close>, \<open>wrapOk b\<close> is the bytes of the text that consists of
  \<open>{\<close>, the key \<open>ok\<close> in double quotes, a colon, the base64 text of \<open>b\<close> in double quotes,
  and \<open>}\<close>, with no whitespace. The base64 text of the bytes \<open>0x68, 0x69\<close> is \<open>aGk=\<close>, and
  \<open>wrapOk\<close> of them is the thirteen bytes of that document for \<open>aGk=\<close>.
\<close>

theorem wrapOk_json:
  "wrapOk b = map of_char (''{'' @ [CHR 0x22] @ ''ok'' @ [CHR 0x22] @ '':'' @ [CHR 0x22]
                @ Base64_encode b @ [CHR 0x22] @ ''}'')
   \<and> Base64_encode [0x68, 0x69] = ''aGk=''
   \<and> wrapOk [0x68, 0x69]
       = [0x7B, 0x22, 0x6F, 0x6B, 0x22, 0x3A, 0x22, 0x61, 0x47, 0x6B, 0x3D, 0x22, 0x7D]"
  by (simp add: wrapOk_eq base64_char_def base64_alphabet_def)

end
